theory Spec2Isabelle
  imports Main "HOL-Library.Char_ord" "HOL-Library.List_Lexorder"
begin

section \<open>Token authentication and time-gated authorization of the FBS backend\<close>

text \<open>
  A shallow embedding of the authentication core: the time window evaluator
  \<open>checkLoginTime\<close>, the request guards \<open>authenticateToken\<close> and \<open>protect\<close>, the
  \<open>login\<close> controller, the time-bound validators and the \<open>LoginSession\<close> model.

  JavaScript strings are modelled as \<^typ>\<open>string\<close>. The relational operators of
  JavaScript on two strings compare code units lexicographically, a proper prefix being
  smaller; on \<^typ>\<open>string\<close> this is the order of \<open>List_Lexorder\<close> over \<open>Char_ord\<close>.
  A value that is \<open>null\<close> or \<open>undefined\<close> is \<^const>\<open>None\<close>.
\<close>

subsection \<open>Time window evaluator (middleware/auth.js, \<open>checkLoginTime\<close>)\<close>

text \<open>
  The object returned by \<open>checkLoginTime\<close>: \<open>{ allowed: true }\<close> or
  \<open>{ allowed: false, message, currentTime }\<close>.
\<close>

record timeCheck =
  allowed :: bool
  message :: "string option"
  currentTime :: "string option"

text \<open>JavaScript's \<open>!v\<close> on a value that is a string, \<open>null\<close> or \<open>undefined\<close>.\<close>

definition falsy :: "string option \<Rightarrow> bool" where
  "falsy v = (case v of None \<Rightarrow> True | Some s \<Rightarrow> s = [])"

text \<open>
  The wall clock is read inside the source (\<open>new Date().toTimeString().slice(0, 8)\<close>);
  the model takes the resulting string as the argument \<open>now\<close>.
\<close>

definition checkLoginTime :: "string option \<Rightarrow> string option \<Rightarrow> string \<Rightarrow> timeCheck" where
  "checkLoginTime loginStartTime loginEndTime now =
     (if falsy loginStartTime \<or> falsy loginEndTime
      then \<lparr>allowed = True, message = None, currentTime = None\<rparr>
      else
        (case (loginStartTime, loginEndTime) of
           (Some start, Some endT) \<Rightarrow>
             if (if start > endT then now \<ge> start \<or> now \<le> endT
                 else now \<ge> start \<and> now \<le> endT)
             then \<lparr>allowed = True, message = None, currentTime = None\<rparr>
             else \<lparr>allowed = False,
                   message = Some (''Login allowed only between '' @ start @ '' and '' @ endT),
                   currentTime = Some now\<rparr>
         | _ \<Rightarrow> \<lparr>allowed = True, message = None, currentTime = None\<rparr>))"

subsection \<open>Time-bound validators (middleware/validators.js)\<close>

text \<open>
  The validators test a field with the regular expression
  \<^verbatim>\<open>/^([01]?[0-9]|2[0-3]):[0-5][0-9](:[0-5][0-9])?$/\<close>.
  The fragment of regular expressions it is written in: a character class, a sequence,
  an alternative and an optional part.
\<close>

datatype regex =
  Chars "char list"
  | Seq regex regex
  | Alt regex regex
  | Opt regex

text \<open>
  \<open>run r s\<close> lists what is left of \<open>s\<close> after each way of matching \<open>r\<close> at its
  front; the anchors \<open>^\<close> and \<open>$\<close> ask for a way that leaves nothing.
\<close>

fun run :: "regex \<Rightarrow> string \<Rightarrow> string list" where
  "run (Chars cs) [] = []"
| "run (Chars cs) (c # s) = (if c \<in> set cs then [s] else [])"
| "run (Seq r1 r2) s = concat (map (run r2) (run r1 s))"
| "run (Alt r1 r2) s = run r1 s @ run r2 s"
| "run (Opt r) s = run r s @ [s]"

definition test :: "regex \<Rightarrow> string \<Rightarrow> bool" where
  "test r s = ([] \<in> set (run r s))"

definition digit :: regex where
  "digit = Chars ''0123456789''"

definition timeRegex :: regex where
  "timeRegex =
     Seq (Alt (Seq (Opt (Chars ''01'')) digit) (Seq (Chars ''2'') (Chars ''0123'')))
      (Seq (Chars '':'')
        (Seq (Chars ''012345'')
          (Seq digit
            (Opt (Seq (Chars '':'') (Seq (Chars ''012345'') digit))))))"

text \<open>
  A field of the request body as the validators and controllers see it: missing
  (\<open>undefined\<close>), \<open>null\<close>, or a string.
\<close>

datatype jsval = Undefined | Null | Str string

text \<open>
  \<open>registerValidation\<close>: \<open>body(field).optional().matches(regex)\<close>. An \<open>undefined\<close>
  field is skipped; any other value is turned into a string (\<open>null\<close> into the empty
  string) and tested.
\<close>

definition registerTimeValid :: "jsval \<Rightarrow> bool" where
  "registerTimeValid v =
     (case v of Undefined \<Rightarrow> True | Null \<Rightarrow> test timeRegex [] | Str s \<Rightarrow> test timeRegex s)"

text \<open>
  \<open>updateUserValidation\<close>: \<open>body(field).optional({ nullable: true }).custom(...)\<close>,
  the custom test accepting \<open>null\<close> and the empty string before it tests the regex.
\<close>

definition updateTimeValid :: "jsval \<Rightarrow> bool" where
  "updateTimeValid v =
     (case v of Undefined \<Rightarrow> True | Null \<Rightarrow> True | Str s \<Rightarrow> s = [] \<or> test timeRegex s)"

text \<open>
  What \<open>User.create\<close> and \<open>updateUser\<close> store for an accepted bound:
  \<open>loginStartTime || null\<close>. (On an \<open>undefined\<close> field \<open>updateUser\<close> leaves the
  stored bound as it is.)
\<close>

definition storedBound :: "jsval \<Rightarrow> string option" where
  "storedBound v = (case v of Str s \<Rightarrow> if s = [] then None else Some s | _ \<Rightarrow> None)"

subsection \<open>Identities, tokens and responses\<close>

text \<open>A row of the user table; \<open>uid\<close> is the column \<open>id\<close>.\<close>

record user =
  uid :: int
  name :: string
  email :: string
  phone :: string
  password :: string
  role :: string
  loginStartTime :: "string option"
  loginEndTime :: "string option"
  isActive :: bool

text \<open>The payload that \<open>login\<close> signs and \<open>jwt.verify\<close> decodes.\<close>

record claims =
  tok_userId :: int
  tok_email :: string
  tok_role :: string

text \<open>
  \<open>jwt.verify(token, secret)\<close> belongs to the jsonwebtoken library: the model takes it
  as a function that returns the decoded payload or the \<open>name\<close> of the error it throws
  (\<open>TokenExpiredError\<close>, \<open>JsonWebTokenError\<close>, \<open>NotBeforeError\<close>).
\<close>

type_synonym verifier = "string \<Rightarrow> string + claims"

text \<open>Objects passed to \<open>res.json\<close> or attached as \<open>req.user\<close>.\<close>

datatype json =
  JNull
  | JBool bool
  | JNum int
  | JStr string
  | JObj "(string \<times> json) list"

text \<open>
  What a middleware or controller does with a request: it answers with a status and a
  body, or it calls \<open>next()\<close> with \<open>req.user\<close> set.
\<close>

datatype outcome = Respond nat json | Next json

definition jsonOpt :: "string option \<Rightarrow> json" where
  "jsonOpt v = (case v of None \<Rightarrow> JNull | Some s \<Rightarrow> JStr s)"

definition failure :: "string \<Rightarrow> json" where
  "failure msg = JObj [(''success'', JBool False), (''message'', JStr msg)]"

text \<open>\<open>s.split(c)\<close> of JavaScript, for a one-character separator.\<close>

fun split :: "char \<Rightarrow> string \<Rightarrow> string list" where
  "split c [] = [[]]"
| "split c (x # xs) =
     (if x = c then [] # split c xs
      else (case split c xs of [] \<Rightarrow> [[x]] | w # ws \<Rightarrow> (x # w) # ws))"

text \<open>\<open>xs[i]\<close> of JavaScript: \<open>undefined\<close> out of range.\<close>

definition index :: "'a list \<Rightarrow> nat \<Rightarrow> 'a option" where
  "index xs i = (if i < length xs then Some (xs ! i) else None)"

text \<open>\<open>prisma.user.findUnique({ where: { id } })\<close> on the user table.\<close>

definition findUnique :: "user list \<Rightarrow> int \<Rightarrow> user option" where
  "findUnique users i = find (\<lambda>u. uid u = i) users"

text \<open>The \<open>select\<close> of \<open>authenticateToken\<close>: every column but the password and the dates.\<close>

definition selectUser :: "user \<Rightarrow> json" where
  "selectUser u =
     JObj [(''id'', JNum (uid u)), (''name'', JStr (name u)), (''email'', JStr (email u)),
           (''phone'', JStr (phone u)), (''role'', JStr (role u)),
           (''loginStartTime'', jsonOpt (loginStartTime u)),
           (''loginEndTime'', jsonOpt (loginEndTime u)),
           (''isActive'', JBool (isActive u))]"

subsection \<open>Request guards (middleware/auth.js)\<close>

text \<open>\<open>authHeader && authHeader.split(" ")[1]\<close>.\<close>

definition bearerToken :: "string option \<Rightarrow> string option" where
  "bearerToken authHeader =
     (if falsy authHeader then authHeader else
        (case authHeader of None \<Rightarrow> None | Some h \<Rightarrow> index (split CHR '' '' h) 1))"

text \<open>
  \<open>authenticateToken\<close>. The \<open>catch\<close> block is the branch on the name of the error
  thrown by \<open>jwt.verify\<close>. The user table is read through \<open>findUnique\<close>; errors of the
  storage layer itself are outside the model.
\<close>

definition authenticateToken ::
  "verifier \<Rightarrow> user list \<Rightarrow> string option \<Rightarrow> string \<Rightarrow> outcome" where
  "authenticateToken verify users authHeader now =
     (let token = bearerToken authHeader in
      if falsy token then Respond 401 (failure ''Access token required'')
      else
        (case verify (case token of None \<Rightarrow> [] | Some t \<Rightarrow> t) of
           Inl errorName \<Rightarrow>
             if errorName = ''TokenExpiredError'' then Respond 401 (failure ''Token has expired'')
             else if errorName = ''JsonWebTokenError'' then Respond 401 (failure ''Invalid token'')
             else Respond 500 (failure ''Internal server error'')
         | Inr decoded \<Rightarrow>
             (case findUnique users (tok_userId decoded) of
                None \<Rightarrow> Respond 401 (failure ''User not found'')
              | Some user \<Rightarrow>
                  if \<not> isActive user then Respond 403 (failure ''Account has been deactivated'')
                  else if role user = ''employee'' then
                    (let timeCheck = checkLoginTime (loginStartTime user) (loginEndTime user) now in
                     if \<not> allowed timeCheck then
                       Respond 403
                         (JObj [(''success'', JBool False),
                                (''message'', JStr (''Session expired: '' @
                                   (case message timeCheck of None \<Rightarrow> ''undefined'' | Some m \<Rightarrow> m))),
                                (''currentTime'', jsonOpt (currentTime timeCheck)),
                                (''allowedStartTime'', jsonOpt (loginStartTime user)),
                                (''allowedEndTime'', jsonOpt (loginEndTime user)),
                                (''code'', JStr ''OUTSIDE_ALLOWED_TIME'')])
                     else Next (selectUser user))
                  else Next (selectUser user))))"

text \<open>
  \<open>protect\<close>, the guard of the order routes. \<open>jwt.verify\<close> on a missing token throws
  a \<open>JsonWebTokenError\<close>, which the \<open>catch\<close> block answers like every other error.
\<close>

definition protect :: "verifier \<Rightarrow> string option \<Rightarrow> outcome" where
  "protect verify authHeader =
     (case authHeader of
        None \<Rightarrow> Respond 401 (JObj [(''message'', JStr ''Unauthorized'')])
      | Some h \<Rightarrow>
          if h = [] \<or> take 7 h \<noteq> ''Bearer '' then
            Respond 401 (JObj [(''message'', JStr ''Unauthorized'')])
          else
            (case index (split CHR '' '' h) 1 of
               None \<Rightarrow> Respond 401 (JObj [(''message'', JStr ''Invalid token'')])
             | Some token \<Rightarrow>
                 (case verify token of
                    Inl errorName \<Rightarrow> Respond 401 (JObj [(''message'', JStr ''Invalid token'')])
                  | Inr decoded \<Rightarrow>
                      Next (JObj [(''id'', JNum (tok_userId decoded)),
                                  (''role'', JStr (tok_role decoded))]))))"

text \<open>
  The routers and the guard each mounts: \<open>authRoutes.js\<close> (profile, logout,
  change-password, register), \<open>userRoutes.js\<close> and the lead routes put
  \<open>authenticateToken\<close> in front of their handlers, \<open>order.routes.js\<close> has
  \<open>router.use(protect)\<close>.
\<close>

datatype router = AuthRoutes | UserRoutes | LeadRoutes | OrderRoutes

definition guard ::
  "router \<Rightarrow> verifier \<Rightarrow> user list \<Rightarrow> string option \<Rightarrow> string \<Rightarrow> outcome" where
  "guard r verify users authHeader now =
     (case r of
        OrderRoutes \<Rightarrow> protect verify authHeader
      | _ \<Rightarrow> authenticateToken verify users authHeader now)"

subsection \<open>Session tracker (models/LoginSession.js)\<close>

text \<open>
  A row of the login session table; \<open>sid\<close> is the column \<open>id\<close>. Times are
  timestamps, counted in some unit from some origin.
\<close>

record session =
  sid :: nat
  userId :: int
  loginTime :: nat
  logoutTime :: "nat option"
  ipAddress :: "string option"
  userAgent :: "string option"
  isValid :: bool

text \<open>The key the table gives to a new row: one that no row has.\<close>

definition nextId :: "session list \<Rightarrow> nat" where
  "nextId rows = Suc (foldr max (map sid rows) 0)"

text \<open>\<open>v || null\<close> on a string, \<open>null\<close> or \<open>undefined\<close>.\<close>

definition orNull :: "string option \<Rightarrow> string option" where
  "orNull v = (if falsy v then None else v)"

text \<open>
  Modelled from the spec: the Prisma schema of the session table is not among the
  sources, so the columns that \<open>LoginSession.create\<close> leaves to the schema's defaults
  follow the spec's data model: \<open>loginTime\<close> is set at creation (to the time \<open>ts\<close> of
  the call), \<open>logoutTime\<close> is null and \<open>isValid\<close> is true until the session is ended.
  The call returns the new row.
\<close>

definition create ::
  "int \<Rightarrow> string option \<Rightarrow> string option \<Rightarrow> nat \<Rightarrow> session list \<Rightarrow> session \<times> session list" where
  "create u ip ua ts rows =
     (let s = \<lparr>sid = nextId rows, userId = u, loginTime = ts, logoutTime = None,
                ipAddress = orNull ip, userAgent = orNull ua, isValid = True\<rparr>
      in (s, rows @ [s]))"

text \<open>
  The first row under \<open>orderBy: { loginTime: "desc" }\<close>: a row whose \<open>loginTime\<close> is
  the greatest. Among rows with the same \<open>loginTime\<close> the database is free to choose;
  the model takes the one that comes first in the table.
\<close>

fun latest :: "session list \<Rightarrow> session option" where
  "latest [] = None"
| "latest (s # ss) =
     (case latest ss of
        None \<Rightarrow> Some s
      | Some t \<Rightarrow> if loginTime s < loginTime t then Some t else Some s)"

text \<open>\<open>findFirst({ where: { userId, logoutTime: null }, orderBy: { loginTime: "desc" } })\<close>.\<close>

definition findFirstOpen :: "int \<Rightarrow> session list \<Rightarrow> session option" where
  "findFirstOpen u rows = latest (filter (\<lambda>r. userId r = u \<and> logoutTime r = None) rows)"

text \<open>
  \<open>endSession\<close>: the result of the call and the table after it; \<open>ts\<close> is the
  \<open>new Date()\<close> of the update.
\<close>

definition endSession :: "int \<Rightarrow> nat \<Rightarrow> session list \<Rightarrow> session option \<times> session list" where
  "endSession u ts rows =
     (case findFirstOpen u rows of
        None \<Rightarrow> (None, rows)
      | Some s \<Rightarrow>
          (Some (s\<lparr>logoutTime := Some ts, isValid := False\<rparr>),
           map (\<lambda>r. if sid r = sid s then r\<lparr>logoutTime := Some ts, isValid := False\<rparr> else r) rows))"

text \<open>\<open>invalidateAllSessions\<close>: the number of rows updated and the table after it.\<close>

definition invalidateAllSessions :: "int \<Rightarrow> nat \<Rightarrow> session list \<Rightarrow> nat \<times> session list" where
  "invalidateAllSessions u ts rows =
     (length (filter (\<lambda>r. userId r = u \<and> isValid r) rows),
      map (\<lambda>r. if userId r = u \<and> isValid r then r\<lparr>isValid := False, logoutTime := Some ts\<rparr> else r)
        rows)"

text \<open>
  \<open>deleteOldSessions\<close>: the number of rows deleted and the table after it. The cutoff
  date (\<open>daysOld\<close> days before the call) is the argument \<open>cutoff\<close>.
\<close>

definition deleteOldSessions :: "nat \<Rightarrow> session list \<Rightarrow> nat \<times> session list" where
  "deleteOldSessions cutoff rows =
     (length (filter (\<lambda>r. loginTime r < cutoff) rows),
      filter (\<lambda>r. \<not> loginTime r < cutoff) rows)"

text \<open>The invariant of the table: a session is valid exactly as long as it has no logout time.\<close>

definition consistent :: "session list \<Rightarrow> bool" where
  "consistent rows = list_all (\<lambda>r. isValid r = (logoutTime r = None)) rows"

subsection \<open>Login (controllers/authController.js)\<close>

text \<open>
  \<open>bcrypt.compare\<close> and \<open>jwt.sign\<close> are library functions, taken as the parameters
  \<open>verifyPassword\<close> and \<open>sign\<close>. \<open>login\<close> returns its response and the session table
  after the call; \<open>now\<close> is the time of day read by \<open>checkLoginTime\<close> and \<open>ts\<close> the
  time at which the session row is created.
\<close>

definition findByEmail :: "user list \<Rightarrow> string \<Rightarrow> user option" where
  "findByEmail users e = find (\<lambda>u. email u = e) users"

text \<open>The end of \<open>login\<close>: sign the token, record the session, answer (status 200).\<close>

definition issue ::
  "(claims \<Rightarrow> string) \<Rightarrow> user \<Rightarrow> string option \<Rightarrow> string option \<Rightarrow> nat \<Rightarrow> session list \<Rightarrow>
   outcome \<times> session list" where
  "issue sign user ip ua ts rows =
     (let token = sign \<lparr>tok_userId = uid user, tok_email = email user, tok_role = role user\<rparr>;
          created = create (uid user) ip ua ts rows
      in
      (Respond 200
         (JObj [(''success'', JBool True),
                (''message'', JStr ''Login successful''),
                (''data'', JObj [(''token'', JStr token),
                   (''user'', JObj [(''id'', JNum (uid user)),
                      (''name'', JStr (name user)),
                      (''email'', JStr (email user)),
                      (''phone'', JStr (phone user)),
                      (''role'', JStr (role user)),
                      (''loginStartTime'', jsonOpt (loginStartTime user)),
                      (''loginEndTime'', jsonOpt (loginEndTime user))])])]),
       snd created))"

definition login ::
  "(string \<Rightarrow> string \<Rightarrow> bool) \<Rightarrow> (claims \<Rightarrow> string) \<Rightarrow> user list \<Rightarrow> session list \<Rightarrow>
   string \<Rightarrow> string \<Rightarrow> string option \<Rightarrow> string option \<Rightarrow> string \<Rightarrow> nat \<Rightarrow> outcome \<times> session list" where
  "login verifyPassword sign users rows emailIn passwordIn ip ua now ts =
     (case findByEmail users emailIn of
        None \<Rightarrow> (Respond 401 (failure ''Invalid email or password''), rows)
      | Some user \<Rightarrow>
          if \<not> isActive user then
            (Respond 403 (failure ''Account has been deactivated. Please contact admin.''), rows)
          else if \<not> verifyPassword passwordIn (password user) then
            (Respond 401 (failure ''Invalid email or password''), rows)
          else if role user = ''employee'' then
            (let timeCheck = checkLoginTime (loginStartTime user) (loginEndTime user) now in
             if \<not> allowed timeCheck then
               (Respond 403
                  (JObj [(''success'', JBool False),
                         (''message'', jsonOpt (message timeCheck)),
                         (''currentTime'', jsonOpt (currentTime timeCheck)),
                         (''allowedStartTime'', jsonOpt (loginStartTime user)),
                         (''allowedEndTime'', jsonOpt (loginEndTime user))]),
                rows)
             else issue sign user ip ua ts rows)
          else issue sign user ip ua ts rows)"

subsection \<open>Sample data\<close>

text \<open>
  A small installation, used to run the definitions: the seeded administrator, the day
  shift employee of the README (allowed from 09:00:00 to 18:00:00), a verifier that knows
  a token for each of them, a token of a deleted user, an expired token, and rejects
  everything else, and a session table.
\<close>

definition sampleAdmin :: user where
  "sampleAdmin =
     \<lparr>uid = 1, name = ''Admin User'', email = ''admin@fbs.com'', phone = ''9999999999'',
      password = ''$2a$12$admin'', role = ''admin'',
      loginStartTime = Some ''09:00:00'', loginEndTime = Some ''18:00:00'', isActive = True\<rparr>"

definition sampleUser :: user where
  "sampleUser =
     \<lparr>uid = 2, name = ''Day Shift'', email = ''timetest@fbs.com'', phone = ''1234567890'',
      password = ''$2a$12$hash'', role = ''employee'',
      loginStartTime = Some ''09:00:00'', loginEndTime = Some ''18:00:00'', isActive = True\<rparr>"

definition sampleUsers :: "user list" where
  "sampleUsers = [sampleAdmin, sampleUser]"

definition sampleVerify :: verifier where
  "sampleVerify t =
     (if t = ''emp'' then Inr \<lparr>tok_userId = 2, tok_email = ''timetest@fbs.com'', tok_role = ''employee''\<rparr>
      else if t = ''adm'' then Inr \<lparr>tok_userId = 1, tok_email = ''admin@fbs.com'', tok_role = ''admin''\<rparr>
      else if t = ''gone'' then Inr \<lparr>tok_userId = 9, tok_email = ''gone@fbs.com'', tok_role = ''employee''\<rparr>
      else if t = ''old'' then Inl ''TokenExpiredError''
      else Inl ''JsonWebTokenError'')"

text \<open>
  The same verifier, knowing one more token: a correctly signed one whose \<open>nbf\<close> date is
  still ahead, for which \<open>jwt.verify\<close> throws a \<open>NotBeforeError\<close>.
\<close>

definition sampleVerifyEarly :: verifier where
  "sampleVerifyEarly t = (if t = ''early'' then Inl ''NotBeforeError'' else sampleVerify t)"

definition sampleCompare :: "string \<Rightarrow> string \<Rightarrow> bool" where
  "sampleCompare plain hashed = (hashed = ''$2a$12$'' @ plain)"

definition sampleSign :: "claims \<Rightarrow> string" where
  "sampleSign c = ''jwt:'' @ tok_email c"

definition sampleRows :: "session list" where
  "sampleRows =
     [\<lparr>sid = 1, userId = 2, loginTime = 100, logoutTime = Some 200,
        ipAddress = None, userAgent = None, isValid = False\<rparr>,
      \<lparr>sid = 2, userId = 2, loginTime = 300, logoutTime = None,
        ipAddress = Some ''10.0.0.7'', userAgent = None, isValid = True\<rparr>,
      \<lparr>sid = 3, userId = 2, loginTime = 250, logoutTime = None,
        ipAddress = None, userAgent = None, isValid = True\<rparr>,
      \<lparr>sid = 4, userId = 5, loginTime = 400, logoutTime = None,
        ipAddress = None, userAgent = None, isValid = True\<rparr>]"

subsection \<open>Lengths of the strings a regular expression matches\<close>

fun lens :: "regex \<Rightarrow> nat list" where
  "lens (Chars cs) = [1]"
| "lens (Seq r1 r2) = concat (map (\<lambda>n. map (\<lambda>m. n + m) (lens r2)) (lens r1))"
| "lens (Alt r1 r2) = lens r1 @ lens r2"
| "lens (Opt r) = lens r @ [0]"

section \<open>Properties\<close>

subsection \<open>Time window evaluator\<close>

lemma checkLoginTime_present:
  "start \<noteq> [] \<Longrightarrow> endT \<noteq> [] \<Longrightarrow>
   allowed (checkLoginTime (Some start) (Some endT) now) =
     (if start > endT then now \<ge> start \<or> now \<le> endT else now \<ge> start \<and> now \<le> endT)"
  by (simp add: checkLoginTime_def falsy_def)

text \<open>
  Claim C1. For present (non-empty) bounds and any current time, all compared as
  strings: when \<open>start \<le> end\<close> the evaluator allows exactly when
  \<open>start \<le> now \<le> end\<close>; when \<open>start > end\<close> it allows exactly when
  \<open>now \<ge> start\<close> or \<open>now \<le> end\<close>; both boundaries are inclusive, and a window with
  \<open>start = end\<close> allows exactly the instant \<open>now = start\<close>.
\<close>

theorem checkLoginTime_window:
  assumes "start \<noteq> []" and "endT \<noteq> []"
  shows "(start \<le> endT \<longrightarrow>
            allowed (checkLoginTime (Some start) (Some endT) now) = (start \<le> now \<and> now \<le> endT))
       \<and> (start > endT \<longrightarrow>
            allowed (checkLoginTime (Some start) (Some endT) now) = (now \<ge> start \<or> now \<le> endT))
       \<and> allowed (checkLoginTime (Some start) (Some endT) start)
       \<and> allowed (checkLoginTime (Some start) (Some endT) endT)
       \<and> (start = endT \<longrightarrow>
            allowed (checkLoginTime (Some start) (Some endT) now) = (now = start))"
proof -
  have eq: "allowed (checkLoginTime (Some start) (Some endT) now) =
      (if start > endT then now \<ge> start \<or> now \<le> endT else now \<ge> start \<and> now \<le> endT)"
    for now
    using assms by (rule checkLoginTime_present)
  have same_day: "start \<le> endT \<longrightarrow>
      allowed (checkLoginTime (Some start) (Some endT) now) = (start \<le> now \<and> now \<le> endT)"
    by (simp add: eq not_less [symmetric])
  have overnight: "start > endT \<longrightarrow>
      allowed (checkLoginTime (Some start) (Some endT) now) = (now \<ge> start \<or> now \<le> endT)"
    by (simp add: eq)
  have at_start: "allowed (checkLoginTime (Some start) (Some endT) start)"
    by (simp add: eq not_less)
  have at_end: "allowed (checkLoginTime (Some start) (Some endT) endT)"
    by (simp add: eq not_less)
  have instant: "start = endT \<longrightarrow>
      allowed (checkLoginTime (Some start) (Some endT) now) = (now = start)"
  proof
    assume same: "start = endT"
    with same_day have "allowed (checkLoginTime (Some start) (Some endT) now) =
        (start \<le> now \<and> now \<le> endT)"
      by simp
    also have "\<dots> = (now = start)"
      using same by auto
    finally show "allowed (checkLoginTime (Some start) (Some endT) now) = (now = start)" .
  qed
  from same_day overnight at_start at_end instant show ?thesis by blast
qed

theorem checkLoginTime_window_witness:
  "allowed (checkLoginTime (Some ''09:00:00'') (Some ''18:00:00'') ''09:00:00'')
   \<and> allowed (checkLoginTime (Some ''09:00:00'') (Some ''18:00:00'') ''18:00:00'')
   \<and> \<not> allowed (checkLoginTime (Some ''09:00:00'') (Some ''18:00:00'') ''18:00:01'')
   \<and> \<not> allowed (checkLoginTime (Some ''09:00:00'') (Some ''18:00:00'') ''08:59:59'')
   \<and> allowed (checkLoginTime (Some ''22:00:00'') (Some ''06:00:00'') ''23:30:00'')
   \<and> allowed (checkLoginTime (Some ''22:00:00'') (Some ''06:00:00'') ''06:00:00'')
   \<and> \<not> allowed (checkLoginTime (Some ''22:00:00'') (Some ''06:00:00'') ''12:00:00'')
   \<and> allowed (checkLoginTime (Some ''09:00:00'') (Some ''09:00:00'') ''09:00:00'')
   \<and> \<not> allowed (checkLoginTime (Some ''09:00:00'') (Some ''09:00:00'') ''09:00:01'')"
proof -
  have day: "allowed (checkLoginTime (Some ''09:00:00'') (Some ''18:00:00'') ''09:00:00'')
     \<and> allowed (checkLoginTime (Some ''09:00:00'') (Some ''18:00:00'') ''18:00:00'')
     \<and> \<not> allowed (checkLoginTime (Some ''09:00:00'') (Some ''18:00:00'') ''18:00:01'')
     \<and> \<not> allowed (checkLoginTime (Some ''09:00:00'') (Some ''18:00:00'') ''08:59:59'')"
    using checkLoginTime_window [of "''09:00:00''" "''18:00:00''" "''18:00:01''"]
      checkLoginTime_window [of "''09:00:00''" "''18:00:00''" "''08:59:59''"]
    by simp
  have night: "allowed (checkLoginTime (Some ''22:00:00'') (Some ''06:00:00'') ''23:30:00'')
     \<and> allowed (checkLoginTime (Some ''22:00:00'') (Some ''06:00:00'') ''06:00:00'')
     \<and> \<not> allowed (checkLoginTime (Some ''22:00:00'') (Some ''06:00:00'') ''12:00:00'')"
    using checkLoginTime_window [of "''22:00:00''" "''06:00:00''" "''23:30:00''"]
      checkLoginTime_window [of "''22:00:00''" "''06:00:00''" "''12:00:00''"]
    by simp
  have instant: "allowed (checkLoginTime (Some ''09:00:00'') (Some ''09:00:00'') ''09:00:00'')
     \<and> \<not> allowed (checkLoginTime (Some ''09:00:00'') (Some ''09:00:00'') ''09:00:01'')"
    using checkLoginTime_window [of "''09:00:00''" "''09:00:00''" "''09:00:01''"]
    by simp
  from day night instant show ?thesis by blast
qed

text \<open>
  Claim C9. Whatever the current time, if either bound is absent or empty (\<open>null\<close>,
  missing or the empty string, also when only one bound is present), the evaluator
  returns \<open>{ allowed: true }\<close>.
\<close>

theorem checkLoginTime_absent_bound:
  assumes "startBound = None \<or> startBound = Some [] \<or>
           endBound = None \<or> endBound = Some []"
  shows "checkLoginTime startBound endBound now =
           \<lparr>allowed = True, message = None, currentTime = None\<rparr>"
  using assms by (auto simp: checkLoginTime_def falsy_def)

theorem checkLoginTime_absent_bound_witness:
  "allowed (checkLoginTime (Some ''22:00:00'') None ''03:00:00'')
   \<and> allowed (checkLoginTime (Some []) (Some ''06:00:00'') ''12:00:00'')"
  using checkLoginTime_absent_bound [of "Some ''22:00:00''" None "''03:00:00''"]
    checkLoginTime_absent_bound [of "Some []" "Some ''06:00:00''" "''12:00:00''"]
  by simp

subsection \<open>Validators\<close>

lemma run_length:
  "rest \<in> set (run r s) \<Longrightarrow> \<exists>n\<in>set (lens r). length s = n + length rest"
proof (induction r arbitrary: s rest)
  case (Chars cs)
  then show ?case by (cases s) (auto split: if_splits)
next
  case (Seq r1 r2)
  from Seq.prems obtain mid where m: "mid \<in> set (run r1 s)" "rest \<in> set (run r2 mid)"
    by auto
  from Seq.IH(1) [OF m(1)] Seq.IH(2) [OF m(2)] show ?case
    by fastforce
next
  case (Alt r1 r2)
  then show ?case by fastforce
next
  case (Opt r)
  then show ?case by fastforce
qed

lemma timeRegex_lengths: "test timeRegex s \<Longrightarrow> length s \<in> {4, 5, 7, 8}"
proof -
  assume "test timeRegex s"
  then have "[] \<in> set (run timeRegex s)" by (simp add: test_def)
  from run_length [OF this] have "length s \<in> set (lens timeRegex)" by simp
  then show ?thesis by (auto simp: timeRegex_def digit_def)
qed

text \<open>
  Claim C8. The claim is that the validators accept only zero-padded bounds with a
  two-digit hour, whose string order agrees with the order of the times. The regular
  expression makes the first digit of the hour optional: \<open>9:00\<close> passes both
  validators and is stored as it is. Compared as strings, \<open>9:00\<close> is greater than
  \<open>18:00\<close>, so the window from \<open>9:00\<close> to \<open>18:00\<close> is taken for an overnight one and
  is open at 05:00:00. A bound without seconds is a proper prefix of the current time of
  the same minute, hence smaller: the window from \<open>09:00\<close> to \<open>18:00\<close> is closed at
  18:00:00.
\<close>

theorem validators_accept_one_digit_hour:
  "registerTimeValid (Str ''9:00'')
   \<and> updateTimeValid (Str ''9:00'')
   \<and> storedBound (Str ''9:00'') = Some ''9:00''
   \<and> registerTimeValid (Str ''18:00'')
   \<and> storedBound (Str ''18:00'') = Some ''18:00''
   \<and> allowed (checkLoginTime (Some ''9:00'') (Some ''18:00'') ''05:00:00'')
   \<and> \<not> allowed (checkLoginTime (Some ''09:00'') (Some ''18:00'') ''18:00:00'')"
  by (simp add: registerTimeValid_def updateTimeValid_def storedBound_def test_def timeRegex_def
      digit_def checkLoginTime_def falsy_def)


subsection \<open>The guard \<open>authenticateToken\<close>\<close>

lemma auth_missing:
  "falsy (bearerToken h) \<Longrightarrow>
   authenticateToken verify users h now = Respond 401 (failure ''Access token required'')"
  by (simp add: authenticateToken_def)

lemma auth_rejected:
  "bearerToken h = Some t \<Longrightarrow> t \<noteq> [] \<Longrightarrow> verify t = Inl e \<Longrightarrow>
   authenticateToken verify users h now =
     (if e = ''TokenExpiredError'' then Respond 401 (failure ''Token has expired'')
      else if e = ''JsonWebTokenError'' then Respond 401 (failure ''Invalid token'')
      else Respond 500 (failure ''Internal server error''))"
  by (simp add: authenticateToken_def falsy_def)

lemma auth_unknown:
  "bearerToken h = Some t \<Longrightarrow> t \<noteq> [] \<Longrightarrow> verify t = Inr d \<Longrightarrow>
   findUnique users (tok_userId d) = None \<Longrightarrow>
   authenticateToken verify users h now = Respond 401 (failure ''User not found'')"
  by (simp add: authenticateToken_def falsy_def)

lemma auth_inactive:
  "bearerToken h = Some t \<Longrightarrow> t \<noteq> [] \<Longrightarrow> verify t = Inr d \<Longrightarrow>
   findUnique users (tok_userId d) = Some u \<Longrightarrow> \<not> isActive u \<Longrightarrow>
   authenticateToken verify users h now = Respond 403 (failure ''Account has been deactivated'')"
  by (simp add: authenticateToken_def falsy_def)

lemma checkLoginTime_denied:
  assumes "\<not> allowed (checkLoginTime a b now)"
  shows "\<exists>start endT. a = Some start \<and> b = Some endT
     \<and> checkLoginTime a b now =
         \<lparr>allowed = False,
          message = Some (''Login allowed only between '' @ start @ '' and '' @ endT),
          currentTime = Some now\<rparr>"
  using assms
  by (cases a; cases b) (auto simp: checkLoginTime_def falsy_def split: if_splits)

lemma auth_outside:
  assumes "bearerToken h = Some t" "t \<noteq> []" "verify t = Inr d"
    "findUnique users (tok_userId d) = Some u" "isActive u" "role u = ''employee''"
    "\<not> allowed (checkLoginTime (loginStartTime u) (loginEndTime u) now)"
  shows "\<exists>start endT. loginStartTime u = Some start \<and> loginEndTime u = Some endT \<and>
     authenticateToken verify users h now =
       Respond 403
         (JObj [(''success'', JBool False),
                (''message'', JStr (''Session expired: Login allowed only between '' @ start @ '' and '' @ endT)),
                (''currentTime'', JStr now),
                (''allowedStartTime'', JStr start),
                (''allowedEndTime'', JStr endT),
                (''code'', JStr ''OUTSIDE_ALLOWED_TIME'')])"
proof -
  from checkLoginTime_denied [OF assms(7)] obtain start endT where
    b: "loginStartTime u = Some start" "loginEndTime u = Some endT"
    and c: "checkLoginTime (loginStartTime u) (loginEndTime u) now =
         \<lparr>allowed = False,
          message = Some (''Login allowed only between '' @ start @ '' and '' @ endT),
          currentTime = Some now\<rparr>"
    by blast
  have "authenticateToken verify users h now =
       Respond 403
         (JObj [(''success'', JBool False),
                (''message'', JStr (''Session expired: Login allowed only between '' @ start @ '' and '' @ endT)),
                (''currentTime'', JStr now),
                (''allowedStartTime'', JStr start),
                (''allowedEndTime'', JStr endT),
                (''code'', JStr ''OUTSIDE_ALLOWED_TIME'')])"
    using assms(1-6) c by (simp add: authenticateToken_def falsy_def Let_def jsonOpt_def b)
  with b show ?thesis by blast
qed

lemma auth_granted:
  "bearerToken h = Some t \<Longrightarrow> t \<noteq> [] \<Longrightarrow> verify t = Inr d \<Longrightarrow>
   findUnique users (tok_userId d) = Some u \<Longrightarrow> isActive u \<Longrightarrow>
   role u \<noteq> ''employee'' \<or> allowed (checkLoginTime (loginStartTime u) (loginEndTime u) now) \<Longrightarrow>
   authenticateToken verify users h now = Next (selectUser u)"
  by (auto simp: authenticateToken_def falsy_def Let_def)

lemma sample_tokens:
  "bearerToken (Some ''Bearer emp'') = Some ''emp''"
  "bearerToken (Some ''Bearer adm'') = Some ''adm''"
  "bearerToken (Some ''Bearer old'') = Some ''old''"
  "bearerToken (Some ''Bearer junk'') = Some ''junk''"
  "bearerToken (Some ''Bearer gone'') = Some ''gone''"
  "falsy (bearerToken None)"
  "falsy (bearerToken (Some ''Bearer''))"
  by (simp_all add: bearerToken_def falsy_def index_def)

lemma sample_lookup:
  "findUnique sampleUsers 2 = Some sampleUser"
  "findUnique sampleUsers 1 = Some sampleAdmin"
  "findUnique sampleUsers 9 = None"
  "findUnique [sampleAdmin, sampleUser\<lparr>isActive := False\<rparr>] 2 = Some (sampleUser\<lparr>isActive := False\<rparr>)"
  by (simp_all add: findUnique_def sampleUsers_def sampleUser_def sampleAdmin_def)

text \<open>
  Claim C3, as amended. \<open>authenticateToken\<close> checks, in this order, that a token is
  present, that it is valid, that its subject is a stored identity, that the identity is
  active and, for an employee, that the current time is inside the window. The first
  check that fails decides the answer, whatever the inputs of the later checks are:
  status 401 for a missing token, for a token that \<open>jwt.verify\<close> rejects with a
  \<open>TokenExpiredError\<close> or a \<open>JsonWebTokenError\<close>, and for an unknown subject; status
  500 (``Internal server error'') for a token that \<open>jwt.verify\<close> rejects with an error
  of any other name; status 403 for a deactivated account and for a time outside the
  window; each with its own message. The request passes when no check fails.
\<close>

theorem authenticateToken_order:
  "(falsy (bearerToken h) \<longrightarrow>
      authenticateToken verify users h now = Respond 401 (failure ''Access token required''))
   \<and> (bearerToken h = Some t \<and> t \<noteq> [] \<and> verify t = Inl ''TokenExpiredError'' \<longrightarrow>
      authenticateToken verify users h now = Respond 401 (failure ''Token has expired''))
   \<and> (bearerToken h = Some t \<and> t \<noteq> [] \<and> verify t = Inl ''JsonWebTokenError'' \<longrightarrow>
      authenticateToken verify users h now = Respond 401 (failure ''Invalid token''))
   \<and> (bearerToken h = Some t \<and> t \<noteq> [] \<and> verify t = Inl e
        \<and> e \<noteq> ''TokenExpiredError'' \<and> e \<noteq> ''JsonWebTokenError'' \<longrightarrow>
      authenticateToken verify users h now = Respond 500 (failure ''Internal server error''))
   \<and> (bearerToken h = Some t \<and> t \<noteq> [] \<and> verify t = Inr d
        \<and> findUnique users (tok_userId d) = None \<longrightarrow>
      authenticateToken verify users h now = Respond 401 (failure ''User not found''))
   \<and> (bearerToken h = Some t \<and> t \<noteq> [] \<and> verify t = Inr d
        \<and> findUnique users (tok_userId d) = Some u \<and> \<not> isActive u \<longrightarrow>
      authenticateToken verify users h now = Respond 403 (failure ''Account has been deactivated''))
   \<and> (bearerToken h = Some t \<and> t \<noteq> [] \<and> verify t = Inr d
        \<and> findUnique users (tok_userId d) = Some u \<and> isActive u \<and> role u = ''employee''
        \<and> \<not> allowed (checkLoginTime (loginStartTime u) (loginEndTime u) now) \<longrightarrow>
      (\<exists>start endT. loginStartTime u = Some start \<and> loginEndTime u = Some endT \<and>
         authenticateToken verify users h now =
           Respond 403
             (JObj [(''success'', JBool False),
                    (''message'', JStr (''Session expired: Login allowed only between '' @
                                        start @ '' and '' @ endT)),
                    (''currentTime'', JStr now),
                    (''allowedStartTime'', JStr start),
                    (''allowedEndTime'', JStr endT),
                    (''code'', JStr ''OUTSIDE_ALLOWED_TIME'')])))
   \<and> (bearerToken h = Some t \<and> t \<noteq> [] \<and> verify t = Inr d
        \<and> findUnique users (tok_userId d) = Some u \<and> isActive u
        \<and> (role u = ''employee'' \<longrightarrow>
              allowed (checkLoginTime (loginStartTime u) (loginEndTime u) now)) \<longrightarrow>
      authenticateToken verify users h now = Next (selectUser u))"
proof (intro conjI impI)
  assume "falsy (bearerToken h)"
  then show "authenticateToken verify users h now = Respond 401 (failure ''Access token required'')"
    by (rule auth_missing)
next
  assume "bearerToken h = Some t \<and> t \<noteq> [] \<and> verify t = Inl ''TokenExpiredError''"
  then show "authenticateToken verify users h now = Respond 401 (failure ''Token has expired'')"
    by (simp add: auth_rejected)
next
  assume "bearerToken h = Some t \<and> t \<noteq> [] \<and> verify t = Inl ''JsonWebTokenError''"
  then show "authenticateToken verify users h now = Respond 401 (failure ''Invalid token'')"
    by (simp add: auth_rejected)
next
  assume "bearerToken h = Some t \<and> t \<noteq> [] \<and> verify t = Inl e
        \<and> e \<noteq> ''TokenExpiredError'' \<and> e \<noteq> ''JsonWebTokenError''"
  then show "authenticateToken verify users h now = Respond 500 (failure ''Internal server error'')"
    by (simp add: auth_rejected)
next
  assume "bearerToken h = Some t \<and> t \<noteq> [] \<and> verify t = Inr d
        \<and> findUnique users (tok_userId d) = None"
  then show "authenticateToken verify users h now = Respond 401 (failure ''User not found'')"
    by (simp add: auth_unknown)
next
  assume "bearerToken h = Some t \<and> t \<noteq> [] \<and> verify t = Inr d
        \<and> findUnique users (tok_userId d) = Some u \<and> \<not> isActive u"
  then show "authenticateToken verify users h now =
      Respond 403 (failure ''Account has been deactivated'')"
    by (simp add: auth_inactive)
next
  assume "bearerToken h = Some t \<and> t \<noteq> [] \<and> verify t = Inr d
        \<and> findUnique users (tok_userId d) = Some u \<and> isActive u \<and> role u = ''employee''
        \<and> \<not> allowed (checkLoginTime (loginStartTime u) (loginEndTime u) now)"
  then show "\<exists>start endT. loginStartTime u = Some start \<and> loginEndTime u = Some endT \<and>
         authenticateToken verify users h now =
           Respond 403
             (JObj [(''success'', JBool False),
                    (''message'', JStr (''Session expired: Login allowed only between '' @
                                        start @ '' and '' @ endT)),
                    (''currentTime'', JStr now),
                    (''allowedStartTime'', JStr start),
                    (''allowedEndTime'', JStr endT),
                    (''code'', JStr ''OUTSIDE_ALLOWED_TIME'')])"
    using auth_outside [of h t verify d users u now] by blast
next
  assume "bearerToken h = Some t \<and> t \<noteq> [] \<and> verify t = Inr d
        \<and> findUnique users (tok_userId d) = Some u \<and> isActive u
        \<and> (role u = ''employee'' \<longrightarrow>
              allowed (checkLoginTime (loginStartTime u) (loginEndTime u) now))"
  then show "authenticateToken verify users h now = Next (selectUser u)"
    using auth_granted [of h t verify d users u now] by blast
qed

theorem authenticateToken_order_witness:
  "authenticateToken sampleVerify sampleUsers None ''12:00:00'' =
     Respond 401 (failure ''Access token required'')
   \<and> authenticateToken sampleVerify sampleUsers (Some ''Bearer old'') ''12:00:00'' =
     Respond 401 (failure ''Token has expired'')
   \<and> authenticateToken sampleVerify sampleUsers (Some ''Bearer junk'') ''12:00:00'' =
     Respond 401 (failure ''Invalid token'')
   \<and> authenticateToken sampleVerifyEarly sampleUsers (Some ''Bearer early'') ''12:00:00'' =
     Respond 500 (failure ''Internal server error'')
   \<and> authenticateToken sampleVerify sampleUsers (Some ''Bearer gone'') ''12:00:00'' =
     Respond 401 (failure ''User not found'')
   \<and> authenticateToken sampleVerify [sampleAdmin, sampleUser\<lparr>isActive := False\<rparr>]
        (Some ''Bearer emp'') ''12:00:00'' =
     Respond 403 (failure ''Account has been deactivated'')
   \<and> authenticateToken sampleVerify sampleUsers (Some ''Bearer emp'') ''18:00:01'' =
     Respond 403
       (JObj [(''success'', JBool False),
              (''message'', JStr ''Session expired: Login allowed only between 09:00:00 and 18:00:00''),
              (''currentTime'', JStr ''18:00:01''),
              (''allowedStartTime'', JStr ''09:00:00''),
              (''allowedEndTime'', JStr ''18:00:00''),
              (''code'', JStr ''OUTSIDE_ALLOWED_TIME'')])
   \<and> authenticateToken sampleVerify sampleUsers (Some ''Bearer emp'') ''12:00:00'' =
     Next (selectUser sampleUser)"
proof -
  let ?emp = "\<lparr>tok_userId = 2, tok_email = ''timetest@fbs.com'', tok_role = ''employee''\<rparr>"
  let ?gone = "\<lparr>tok_userId = 9, tok_email = ''gone@fbs.com'', tok_role = ''employee''\<rparr>"
  have v: "sampleVerify ''old'' = Inl ''TokenExpiredError''"
    "sampleVerify ''junk'' = Inl ''JsonWebTokenError''"
    "sampleVerify ''gone'' = Inr ?gone" "sampleVerify ''emp'' = Inr ?emp"
    by (simp_all add: sampleVerify_def)
  have u: "isActive sampleUser" "role sampleUser = ''employee''"
    "loginStartTime sampleUser = Some ''09:00:00''" "loginEndTime sampleUser = Some ''18:00:00''"
    by (simp_all add: sampleUser_def)
  have tc: "\<not> allowed (checkLoginTime (Some ''09:00:00'') (Some ''18:00:00'') ''18:00:01'')"
    "allowed (checkLoginTime (Some ''09:00:00'') (Some ''18:00:00'') ''12:00:00'')"
    by (simp_all add: checkLoginTime_def falsy_def)
  have c1: "authenticateToken sampleVerify sampleUsers None ''12:00:00'' =
     Respond 401 (failure ''Access token required'')"
    using authenticateToken_order [of None sampleVerify sampleUsers "''12:00:00''"] sample_tokens(6)
    by simp
  have c2: "authenticateToken sampleVerify sampleUsers (Some ''Bearer old'') ''12:00:00'' =
     Respond 401 (failure ''Token has expired'')"
    using authenticateToken_order [of "Some ''Bearer old''" sampleVerify sampleUsers "''12:00:00''" "''old''"]
      sample_tokens(3) v(1)
    by simp
  have c3: "authenticateToken sampleVerify sampleUsers (Some ''Bearer junk'') ''12:00:00'' =
     Respond 401 (failure ''Invalid token'')"
    using authenticateToken_order [of "Some ''Bearer junk''" sampleVerify sampleUsers "''12:00:00''" "''junk''"]
      sample_tokens(4) v(2)
    by simp
  have c4: "authenticateToken sampleVerify sampleUsers (Some ''Bearer gone'') ''12:00:00'' =
     Respond 401 (failure ''User not found'')"
    using authenticateToken_order [of "Some ''Bearer gone''" sampleVerify sampleUsers "''12:00:00''" "''gone''" _ ?gone]
      sample_tokens(5) v(3) sample_lookup(3)
    by simp
  have c5: "authenticateToken sampleVerify [sampleAdmin, sampleUser\<lparr>isActive := False\<rparr>]
        (Some ''Bearer emp'') ''12:00:00'' =
     Respond 403 (failure ''Account has been deactivated'')"
    using authenticateToken_order [of "Some ''Bearer emp''" sampleVerify
        "[sampleAdmin, sampleUser\<lparr>isActive := False\<rparr>]" "''12:00:00''" "''emp''" _ ?emp
        "sampleUser\<lparr>isActive := False\<rparr>"]
      sample_tokens(1) v(4) sample_lookup(4)
    by simp
  have c6: "authenticateToken sampleVerify sampleUsers (Some ''Bearer emp'') ''18:00:01'' =
     Respond 403
       (JObj [(''success'', JBool False),
              (''message'', JStr ''Session expired: Login allowed only between 09:00:00 and 18:00:00''),
              (''currentTime'', JStr ''18:00:01''),
              (''allowedStartTime'', JStr ''09:00:00''),
              (''allowedEndTime'', JStr ''18:00:00''),
              (''code'', JStr ''OUTSIDE_ALLOWED_TIME'')])"
    using authenticateToken_order [of "Some ''Bearer emp''" sampleVerify sampleUsers "''18:00:01''"
        "''emp''" _ ?emp sampleUser]
      sample_tokens(1) v(4) sample_lookup(1) u tc(1)
    by simp
  have c7: "authenticateToken sampleVerify sampleUsers (Some ''Bearer emp'') ''12:00:00'' =
     Next (selectUser sampleUser)"
    using authenticateToken_order [of "Some ''Bearer emp''" sampleVerify sampleUsers "''12:00:00''"
        "''emp''" _ ?emp sampleUser]
      sample_tokens(1) v(4) sample_lookup(1) u tc(2)
    by simp
  have early: "bearerToken (Some ''Bearer early'') = Some ''early''"
    "sampleVerifyEarly ''early'' = Inl ''NotBeforeError''"
    by (simp_all add: bearerToken_def falsy_def index_def sampleVerifyEarly_def)
  have c8: "authenticateToken sampleVerifyEarly sampleUsers (Some ''Bearer early'') ''12:00:00'' =
     Respond 500 (failure ''Internal server error'')"
    using authenticateToken_order [of "Some ''Bearer early''" sampleVerifyEarly sampleUsers
        "''12:00:00''" "''early''" "''NotBeforeError''"]
      early
    by simp
  from c1 c2 c3 c4 c5 c6 c7 c8 show ?thesis by blast
qed

text \<open>
  Claim C3 as it was stated, with status 401 for every failure of the validity check,
  does not hold: a token that \<open>jwt.verify\<close> rejects with a \<open>NotBeforeError\<close> reaches the
  last branch of the \<open>catch\<close> block and is answered with status 500.
\<close>

theorem authenticateToken_not_before_counterexample:
  "bearerToken (Some ''Bearer early'') = Some ''early''
   \<and> sampleVerifyEarly ''early'' = Inl ''NotBeforeError''
   \<and> authenticateToken sampleVerifyEarly sampleUsers (Some ''Bearer early'') ''12:00:00'' =
       Respond 500 (failure ''Internal server error'')
   \<and> authenticateToken sampleVerifyEarly sampleUsers (Some ''Bearer early'') ''12:00:00'' \<noteq>
       Respond 401 (failure ''Invalid token'')
   \<and> authenticateToken sampleVerifyEarly sampleUsers (Some ''Bearer early'') ''12:00:00'' \<noteq>
       Respond 401 (failure ''Token has expired'')"
  by (simp add: authenticateToken_def bearerToken_def falsy_def index_def sampleVerifyEarly_def)


subsection \<open>Roles and the time window\<close>

lemma login_not_employee:
  "findByEmail users e = Some u \<Longrightarrow> role u \<noteq> ''employee'' \<Longrightarrow>
   login vp sign users rows e p ip ua now ts =
     (if \<not> isActive u then
        (Respond 403 (failure ''Account has been deactivated. Please contact admin.''), rows)
      else if \<not> vp p (password u) then (Respond 401 (failure ''Invalid email or password''), rows)
      else issue sign u ip ua ts rows)"
  by (simp add: login_def)

text \<open>
  Claim C5. For an identity whose role is not \<open>employee\<close>, in particular for an
  administrator, neither \<open>authenticateToken\<close> nor \<open>login\<close> evaluates the time window:
  whatever the stored bounds and the current time are, the guard passes the request
  exactly when the account is active, and \<open>login\<close> depends on the account state and
  the password only.
\<close>

theorem not_employee_no_time_check:
  assumes "role u \<noteq> ''employee''"
  shows "(bearerToken h = Some t \<and> t \<noteq> [] \<and> verify t = Inr d
            \<and> findUnique users (tok_userId d) = Some u \<longrightarrow>
          authenticateToken verify users h now =
            (if isActive u then Next (selectUser u)
             else Respond 403 (failure ''Account has been deactivated'')))
       \<and> (findByEmail users e = Some u \<longrightarrow>
          login vp sign users rows e p ip ua now ts =
            (if \<not> isActive u then
               (Respond 403 (failure ''Account has been deactivated. Please contact admin.''), rows)
             else if \<not> vp p (password u) then
               (Respond 401 (failure ''Invalid email or password''), rows)
             else issue sign u ip ua ts rows))"
  using assms auth_inactive [of h t verify d users u now] auth_granted [of h t verify d users u now]
    login_not_employee [of users e u vp sign rows p ip ua now ts]
  by (cases "isActive u") auto

theorem not_employee_no_time_check_witness:
  "role sampleAdmin \<noteq> ''employee''
   \<and> \<not> allowed (checkLoginTime (loginStartTime sampleAdmin) (loginEndTime sampleAdmin) ''23:00:00'')
   \<and> authenticateToken sampleVerify sampleUsers (Some ''Bearer adm'') ''23:00:00'' =
       Next (selectUser sampleAdmin)
   \<and> login sampleCompare sampleSign sampleUsers [] ''admin@fbs.com'' ''admin'' None None
        ''23:00:00'' 500 =
       issue sampleSign sampleAdmin None None 500 []"
proof -
  let ?adm = "\<lparr>tok_userId = 1, tok_email = ''admin@fbs.com'', tok_role = ''admin''\<rparr>"
  have r: "role sampleAdmin \<noteq> ''employee''"
    by (simp add: sampleAdmin_def)
  have tc: "\<not> allowed (checkLoginTime (loginStartTime sampleAdmin) (loginEndTime sampleAdmin) ''23:00:00'')"
    by (simp add: sampleAdmin_def checkLoginTime_def falsy_def)
  have v: "sampleVerify ''adm'' = Inr ?adm"
    by (simp add: sampleVerify_def)
  have a: "isActive sampleAdmin" "sampleCompare ''admin'' (password sampleAdmin)"
    by (simp_all add: sampleAdmin_def sampleCompare_def)
  have f: "findByEmail sampleUsers ''admin@fbs.com'' = Some sampleAdmin"
    by (simp add: findByEmail_def sampleUsers_def sampleAdmin_def)
  note spec = not_employee_no_time_check [OF r, of "Some ''Bearer adm''" "''adm''" sampleVerify ?adm
      sampleUsers "''23:00:00''" "''admin@fbs.com''" sampleCompare sampleSign "[]" "''admin''" None None 500]
  have g: "authenticateToken sampleVerify sampleUsers (Some ''Bearer adm'') ''23:00:00'' =
       Next (selectUser sampleAdmin)"
    using spec sample_tokens(2) v sample_lookup(2) a(1) by simp
  have l: "login sampleCompare sampleSign sampleUsers [] ''admin@fbs.com'' ''admin'' None None
        ''23:00:00'' 500 = issue sampleSign sampleAdmin None None 500 []"
    using spec f a by simp
  from r tc g l show ?thesis by blast
qed


subsection \<open>The guard \<open>protect\<close> of the order routes\<close>

text \<open>
  A header that starts with \<open>Bearer\<close> and a space has a second field, so \<open>protect\<close>
  always has a token to verify. It passes every request whose token verifies, and it
  answers every error of the verifier in the same way; neither depends on the user
  table or on the time.
\<close>

lemma split_nonempty: "split c s \<noteq> []"
  by (cases s) (auto split: list.splits)

lemma split_Bearer:
  "take 7 h = ''Bearer '' \<Longrightarrow> \<exists>t. index (split CHR '' '' h) 1 = Some t"
proof -
  assume a: "take 7 h = ''Bearer ''"
  then have "h = ''Bearer '' @ drop 7 h"
    by (metis append_take_drop_id)
  then obtain r where h: "h = ''Bearer '' @ r" ..
  have "split CHR '' '' r \<noteq> []"
    by (rule split_nonempty)
  then obtain w ws where "split CHR '' '' r = w # ws"
    by (cases "split CHR '' '' r") auto
  with h show ?thesis
    by (simp add: index_def)
qed

lemma protect_valid:
  "take 7 h = ''Bearer '' \<Longrightarrow> index (split CHR '' '' h) 1 = Some t \<Longrightarrow> verify t = Inr d \<Longrightarrow>
   protect verify (Some h) = Next (JObj [(''id'', JNum (tok_userId d)), (''role'', JStr (tok_role d))])"
  by (auto simp: protect_def)

lemma protect_rejected:
  "take 7 h = ''Bearer '' \<Longrightarrow> index (split CHR '' '' h) 1 = Some t \<Longrightarrow> verify t = Inl e \<Longrightarrow>
   protect verify (Some h) = Respond 401 (JObj [(''message'', JStr ''Invalid token'')])"
  by (auto simp: protect_def)

lemma guard_orders_store:
  "guard OrderRoutes verify users h now = guard OrderRoutes verify users' h now'"
  by (simp add: guard_def)

text \<open>
  Claim C2. The claim is that on every protected route the guard reloads the identity
  and re-evaluates its account state and time window, so that a valid token is never
  enough while the account is deactivated or the time is outside the window. The order
  routes are guarded by \<open>protect\<close>, which only verifies the token: with the token of
  the day shift employee it passes the request when the account is deactivated and when
  the time is 18:00:01, where \<open>authenticateToken\<close> answers 403.
\<close>

theorem protect_grants_deactivated:
  "guard OrderRoutes sampleVerify [sampleAdmin, sampleUser\<lparr>isActive := False\<rparr>]
       (Some ''Bearer emp'') ''12:00:00'' =
     Next (JObj [(''id'', JNum 2), (''role'', JStr ''employee'')])
   \<and> guard AuthRoutes sampleVerify [sampleAdmin, sampleUser\<lparr>isActive := False\<rparr>]
       (Some ''Bearer emp'') ''12:00:00'' =
     Respond 403 (failure ''Account has been deactivated'')
   \<and> guard OrderRoutes sampleVerify sampleUsers (Some ''Bearer emp'') ''18:00:01'' =
     Next (JObj [(''id'', JNum 2), (''role'', JStr ''employee'')])
   \<and> guard AuthRoutes sampleVerify sampleUsers (Some ''Bearer emp'') ''18:00:01'' =
     Respond 403
       (JObj [(''success'', JBool False),
              (''message'', JStr ''Session expired: Login allowed only between 09:00:00 and 18:00:00''),
              (''currentTime'', JStr ''18:00:01''),
              (''allowedStartTime'', JStr ''09:00:00''),
              (''allowedEndTime'', JStr ''18:00:00''),
              (''code'', JStr ''OUTSIDE_ALLOWED_TIME'')])"
  by (simp add: guard_def protect_def authenticateToken_def bearerToken_def falsy_def index_def
      sampleVerify_def sampleUsers_def sampleUser_def sampleAdmin_def findUnique_def
      checkLoginTime_def jsonOpt_def failure_def)


text \<open>
  Claim C4. The claim is that an expired token and a malformed or wrongly signed token
  are reported with different messages. \<open>authenticateToken\<close> does so (``Token has
  expired'' and ``Invalid token''); \<open>protect\<close> answers both with ``Invalid token''.
\<close>

theorem protect_expired_as_invalid:
  "sampleVerify ''old'' = Inl ''TokenExpiredError''
   \<and> sampleVerify ''junk'' = Inl ''JsonWebTokenError''
   \<and> protect sampleVerify (Some ''Bearer old'') =
       Respond 401 (JObj [(''message'', JStr ''Invalid token'')])
   \<and> protect sampleVerify (Some ''Bearer junk'') =
       Respond 401 (JObj [(''message'', JStr ''Invalid token'')])
   \<and> authenticateToken sampleVerify sampleUsers (Some ''Bearer old'') ''12:00:00'' =
       Respond 401 (failure ''Token has expired'')
   \<and> authenticateToken sampleVerify sampleUsers (Some ''Bearer junk'') ''12:00:00'' =
       Respond 401 (failure ''Invalid token'')"
  by (simp add: protect_def authenticateToken_def bearerToken_def falsy_def index_def
      sampleVerify_def failure_def)


subsection \<open>Login\<close>

text \<open>
  Claim C6. For any submitted password, a login with an email that no stored identity
  has and a login with the email of an active identity whose password does not match
  give the same result: status 401 with the message ``Invalid email or password'', and
  an unchanged session table.
\<close>

theorem login_same_failure:
  assumes "findByEmail users e1 = None"
    and "findByEmail users e2 = Some u" and "isActive u" and "\<not> vp p (password u)"
  shows "login vp sign users rows e1 p ip1 ua1 now1 ts1 =
           (Respond 401 (failure ''Invalid email or password''), rows)
       \<and> login vp sign users rows e2 p ip2 ua2 now2 ts2 =
           (Respond 401 (failure ''Invalid email or password''), rows)"
  using assms by (simp add: login_def)

theorem login_same_failure_witness:
  "findByEmail sampleUsers ''nobody@fbs.com'' = None
   \<and> findByEmail sampleUsers ''timetest@fbs.com'' = Some sampleUser
   \<and> isActive sampleUser
   \<and> \<not> sampleCompare ''guess'' (password sampleUser)
   \<and> login sampleCompare sampleSign sampleUsers sampleRows ''nobody@fbs.com'' ''guess''
        None None ''12:00:00'' 500 =
      login sampleCompare sampleSign sampleUsers sampleRows ''timetest@fbs.com'' ''guess''
        None None ''12:00:00'' 500"
proof -
  have a: "findByEmail sampleUsers ''nobody@fbs.com'' = None"
    and b: "findByEmail sampleUsers ''timetest@fbs.com'' = Some sampleUser"
    by (simp_all add: findByEmail_def sampleUsers_def sampleAdmin_def sampleUser_def)
  have c: "isActive sampleUser" and d: "\<not> sampleCompare ''guess'' (password sampleUser)"
    by (simp_all add: sampleUser_def sampleCompare_def)
  from login_same_failure [where vp = sampleCompare and p = "''guess''" and sign = sampleSign
      and rows = sampleRows and ?ip1.0 = None and ?ua1.0 = None and ?now1.0 = "''12:00:00''"
      and ?ts1.0 = 500 and ?ip2.0 = None and ?ua2.0 = None and ?now2.0 = "''12:00:00''"
      and ?ts2.0 = 500, OF a b c d]
  have "login sampleCompare sampleSign sampleUsers sampleRows ''nobody@fbs.com'' ''guess''
        None None ''12:00:00'' 500 =
      login sampleCompare sampleSign sampleUsers sampleRows ''timetest@fbs.com'' ''guess''
        None None ''12:00:00'' 500"
    by simp
  with a b c d show ?thesis by blast
qed


subsection \<open>Session tracker\<close>

lemma latest_None: "(latest xs = None) = (xs = [])"
  by (induction xs) (auto split: option.splits)

lemma latest_Some:
  "latest xs = Some s \<Longrightarrow> s \<in> set xs \<and> (\<forall>r\<in>set xs. loginTime r \<le> loginTime s)"
proof (induction xs arbitrary: s)
  case Nil
  then show ?case by simp
next
  case (Cons x xs)
  show ?case
  proof (cases "latest xs")
    case None
    then have "xs = []" by (simp add: latest_None)
    with Cons.prems show ?thesis by simp
  next
    case (Some t)
    from Cons.IH [OF Some] have t: "t \<in> set xs" "\<forall>r\<in>set xs. loginTime r \<le> loginTime t"
      by simp_all
    show ?thesis
    proof (cases "loginTime x < loginTime t")
      case True
      with Some Cons.prems have "s = t" by simp
      with t True show ?thesis by auto
    next
      case False
      with Some Cons.prems have "s = x" by simp
      with t False show ?thesis by fastforce
    qed
  qed
qed

lemma findFirstOpen_None:
  "(findFirstOpen u rows = None) = (\<not> (\<exists>r\<in>set rows. userId r = u \<and> logoutTime r = None))"
  by (auto simp: findFirstOpen_def latest_None filter_empty_conv)

lemma findFirstOpen_Some:
  assumes "findFirstOpen u rows = Some s"
  shows "s \<in> set rows" and "userId s = u" and "logoutTime s = None"
    and "\<forall>r\<in>set rows. userId r = u \<and> logoutTime r = None \<longrightarrow> loginTime r \<le> loginTime s"
  using latest_Some [OF assms [unfolded findFirstOpen_def]] by auto

lemma sid_less_nextId: "r \<in> set rows \<Longrightarrow> sid r < nextId rows"
  unfolding nextId_def by (induction rows) auto

lemma nextId_fresh: "r \<in> set rows \<Longrightarrow> sid r \<noteq> nextId rows"
  using sid_less_nextId [of r rows] by simp

lemma sid_unique:
  "distinct (map sid rows) \<Longrightarrow> r \<in> set rows \<Longrightarrow> s \<in> set rows \<Longrightarrow> sid r = sid s \<Longrightarrow> r = s"
  by (auto simp: distinct_map dest: inj_onD)

lemma update_by_sid:
  assumes "distinct (map sid rows)" and "s \<in> set rows"
  shows "map (\<lambda>r. if sid r = sid s then f r else r) rows = map (\<lambda>r. if r = s then f s else r) rows"
proof (rule map_cong [OF refl])
  fix r assume "r \<in> set rows"
  with assms have "sid r = sid s \<longleftrightarrow> r = s"
    by (auto dest: sid_unique)
  then show "(if sid r = sid s then f r else r) = (if r = s then f s else r)"
    by auto
qed

lemma update_fresh:
  "\<forall>r\<in>set rows. sid r \<noteq> k \<Longrightarrow> map (\<lambda>r. if sid r = k then f r else r) rows = rows"
  by (induction rows) auto

lemma count_update:
  assumes "distinct (map sid rows)" and "s \<in> set rows" and "\<not> P s" and "P (f s)"
  shows "length (filter P (map (\<lambda>r. if r = s then f s else r) rows)) = Suc (length (filter P rows))"
  using assms
proof (induction rows)
  case Nil
  then show ?case by simp
next
  case (Cons a rows)
  show ?case
  proof (cases "a = s")
    case True
    with Cons.prems have "s \<notin> set rows" by (auto simp: image_iff)
    then have "map (\<lambda>r. if r = s then f s else r) rows = rows"
      by (induction rows) auto
    with True Cons.prems show ?thesis by simp
  next
    case False
    with Cons.prems have "s \<in> set rows" "distinct (map sid rows)" by auto
    with Cons.IH Cons.prems False show ?thesis by simp
  qed
qed

lemma endSession_None:
  "\<not> (\<exists>r\<in>set rows. userId r = u \<and> logoutTime r = None) \<Longrightarrow> endSession u ts rows = (None, rows)"
  using findFirstOpen_None [of u rows] by (simp add: endSession_def)

lemma endSession_Some:
  assumes ids: "distinct (map sid rows)"
    and op: "\<exists>r\<in>set rows. userId r = u \<and> logoutTime r = None"
  shows "\<exists>s\<in>set rows. userId s = u \<and> logoutTime s = None
          \<and> (\<forall>r\<in>set rows. userId r = u \<and> logoutTime r = None \<longrightarrow> loginTime r \<le> loginTime s)
          \<and> endSession u ts rows =
              (Some (s\<lparr>logoutTime := Some ts, isValid := False\<rparr>),
               map (\<lambda>r. if r = s then s\<lparr>logoutTime := Some ts, isValid := False\<rparr> else r) rows)"
proof -
  from op obtain s where s: "findFirstOpen u rows = Some s"
    using findFirstOpen_None [of u rows] by (cases "findFirstOpen u rows") auto
  note props = findFirstOpen_Some [OF s]
  have "endSession u ts rows =
      (Some (s\<lparr>logoutTime := Some ts, isValid := False\<rparr>),
       map (\<lambda>r. if r = s then s\<lparr>logoutTime := Some ts, isValid := False\<rparr> else r) rows)"
    using s update_by_sid [OF ids props(1), of "\<lambda>r. r\<lparr>logoutTime := Some ts, isValid := False\<rparr>"]
    by (simp add: endSession_def)
  with props show ?thesis by blast
qed

lemma create_rows:
  "create u ip ua ts rows =
     (\<lparr>sid = nextId rows, userId = u, loginTime = ts, logoutTime = None,
        ipAddress = orNull ip, userAgent = orNull ua, isValid = True\<rparr>,
      rows @ [\<lparr>sid = nextId rows, userId = u, loginTime = ts, logoutTime = None,
        ipAddress = orNull ip, userAgent = orNull ua, isValid = True\<rparr>])"
  by (simp add: create_def Let_def)

lemma create_distinct:
  "distinct (map sid rows) \<Longrightarrow> distinct (map sid (snd (create u ip ua ts rows)))"
  by (auto simp: create_rows dest: nextId_fresh)

lemma start_then_end:
  assumes ids: "distinct (map sid rows)"
    and closed: "\<not> (\<exists>r\<in>set rows. userId r = u \<and> logoutTime r = None)"
  shows "endSession u t2 (snd (create u ip ua t1 rows)) =
           (Some ((fst (create u ip ua t1 rows))\<lparr>logoutTime := Some t2, isValid := False\<rparr>),
            rows @ [(fst (create u ip ua t1 rows))\<lparr>logoutTime := Some t2, isValid := False\<rparr>])"
proof -
  let ?s = "fst (create u ip ua t1 rows)"
  have s: "?s = \<lparr>sid = nextId rows, userId = u, loginTime = t1, logoutTime = None,
        ipAddress = orNull ip, userAgent = orNull ua, isValid = True\<rparr>"
    and rows1: "snd (create u ip ua t1 rows) = rows @ [?s]"
    by (simp_all add: create_rows)
  from closed have "filter (\<lambda>r. userId r = u \<and> logoutTime r = None) rows = []"
    by (auto simp: filter_empty_conv)
  then have first: "findFirstOpen u (rows @ [?s]) = Some ?s"
    by (simp add: findFirstOpen_def s)
  have fresh: "\<forall>r\<in>set rows. sid r \<noteq> sid ?s"
    by (auto simp: s dest: nextId_fresh)
  have "map (\<lambda>r. if sid r = sid ?s then r\<lparr>logoutTime := Some t2, isValid := False\<rparr> else r) rows = rows"
    using fresh by (rule update_fresh)
  with first show ?thesis
    by (simp add: endSession_def rows1)
qed

lemma end_again:
  assumes closed: "\<not> (\<exists>r\<in>set rows. userId r = u \<and> logoutTime r = None)"
  shows "endSession u t3 (rows @ [s\<lparr>logoutTime := Some t2, isValid := False\<rparr>]) =
           (None, rows @ [s\<lparr>logoutTime := Some t2, isValid := False\<rparr>])"
  using closed by (intro endSession_None) auto

lemma endSession_example:
  "endSession 2 500 sampleRows =
       (Some \<lparr>sid = 2, userId = 2, loginTime = 300, logoutTime = Some 500,
          ipAddress = Some ''10.0.0.7'', userAgent = None, isValid = False\<rparr>,
        [\<lparr>sid = 1, userId = 2, loginTime = 100, logoutTime = Some 200,
            ipAddress = None, userAgent = None, isValid = False\<rparr>,
         \<lparr>sid = 2, userId = 2, loginTime = 300, logoutTime = Some 500,
            ipAddress = Some ''10.0.0.7'', userAgent = None, isValid = False\<rparr>,
         \<lparr>sid = 3, userId = 2, loginTime = 250, logoutTime = None,
            ipAddress = None, userAgent = None, isValid = True\<rparr>,
         \<lparr>sid = 4, userId = 5, loginTime = 400, logoutTime = None,
            ipAddress = None, userAgent = None, isValid = True\<rparr>])"
  by (simp add: sampleRows_def endSession_def findFirstOpen_def)

text \<open>
  Claim C7. In a table whose rows have distinct ids, \<open>endSession\<close> for an identity
  with an open session (one with a null \<open>logoutTime\<close>) takes an open session of the
  identity with the greatest \<open>loginTime\<close>, sets its \<open>logoutTime\<close> to the current time
  and its \<open>isValid\<close> to false, returns it, and leaves every other row as it is. For an
  identity with no open session it returns nothing and leaves the table as it is. Hence
  \<open>create\<close> followed by \<open>endSession\<close> ends exactly one session (the one just created
  when the identity had no other open session), and a further \<open>endSession\<close> then
  returns nothing and changes nothing.
\<close>

theorem endSession_most_recent_open:
  assumes ids: "distinct (map sid rows)"
  shows "(if \<exists>r\<in>set rows. userId r = u \<and> logoutTime r = None
          then \<exists>s\<in>set rows. userId s = u \<and> logoutTime s = None
            \<and> (\<forall>r\<in>set rows. userId r = u \<and> logoutTime r = None \<longrightarrow> loginTime r \<le> loginTime s)
            \<and> endSession u ts rows =
                (Some (s\<lparr>logoutTime := Some ts, isValid := False\<rparr>),
                 map (\<lambda>r. if r = s then s\<lparr>logoutTime := Some ts, isValid := False\<rparr> else r) rows)
          else endSession u ts rows = (None, rows))
       \<and> fst (endSession u t2 (snd (create u ip ua t1 rows))) \<noteq> None
       \<and> length (filter (\<lambda>r. logoutTime r \<noteq> None \<and> \<not> isValid r)
            (snd (endSession u t2 (snd (create u ip ua t1 rows))))) =
          Suc (length (filter (\<lambda>r. logoutTime r \<noteq> None \<and> \<not> isValid r) rows))
       \<and> (\<not> (\<exists>r\<in>set rows. userId r = u \<and> logoutTime r = None) \<longrightarrow>
            endSession u t2 (snd (create u ip ua t1 rows)) =
              (Some ((fst (create u ip ua t1 rows))\<lparr>logoutTime := Some t2, isValid := False\<rparr>),
               rows @ [(fst (create u ip ua t1 rows))\<lparr>logoutTime := Some t2, isValid := False\<rparr>])
          \<and> endSession u t3 (rows @ [(fst (create u ip ua t1 rows))\<lparr>logoutTime := Some t2, isValid := False\<rparr>]) =
              (None, rows @ [(fst (create u ip ua t1 rows))\<lparr>logoutTime := Some t2, isValid := False\<rparr>]))"
proof -
  let ?P = "\<lambda>r. logoutTime r \<noteq> None \<and> \<not> isValid r"
  let ?rows1 = "snd (create u ip ua t1 rows)"
  have part1: "if \<exists>r\<in>set rows. userId r = u \<and> logoutTime r = None
          then \<exists>s\<in>set rows. userId s = u \<and> logoutTime s = None
            \<and> (\<forall>r\<in>set rows. userId r = u \<and> logoutTime r = None \<longrightarrow> loginTime r \<le> loginTime s)
            \<and> endSession u ts rows =
                (Some (s\<lparr>logoutTime := Some ts, isValid := False\<rparr>),
                 map (\<lambda>r. if r = s then s\<lparr>logoutTime := Some ts, isValid := False\<rparr> else r) rows)
          else endSession u ts rows = (None, rows)"
    using endSession_Some [OF ids, of u ts] endSession_None [of rows u ts]
    by (simp split: if_splits)
  have ids1: "distinct (map sid ?rows1)"
    using ids by (rule create_distinct)
  have open1: "\<exists>r\<in>set ?rows1. userId r = u \<and> logoutTime r = None"
    by (simp add: create_rows)
  from endSession_Some [OF ids1 open1, of t2] obtain s where
    s: "s \<in> set ?rows1" "logoutTime s = None"
    and e: "endSession u t2 ?rows1 =
                (Some (s\<lparr>logoutTime := Some t2, isValid := False\<rparr>),
                 map (\<lambda>r. if r = s then s\<lparr>logoutTime := Some t2, isValid := False\<rparr> else r) ?rows1)"
    by blast
  have part2: "fst (endSession u t2 ?rows1) \<noteq> None"
    by (simp add: e)
  have "length (filter ?P (snd (endSession u t2 ?rows1))) = Suc (length (filter ?P ?rows1))"
    unfolding e snd_conv
    by (rule count_update [OF ids1 s(1)]) (simp_all add: s(2))
  also have "length (filter ?P ?rows1) = length (filter ?P rows)"
    by (simp add: create_rows)
  finally have part3: "length (filter ?P (snd (endSession u t2 ?rows1))) = Suc (length (filter ?P rows))" .
  have part4: "\<not> (\<exists>r\<in>set rows. userId r = u \<and> logoutTime r = None) \<longrightarrow>
            endSession u t2 (snd (create u ip ua t1 rows)) =
              (Some ((fst (create u ip ua t1 rows))\<lparr>logoutTime := Some t2, isValid := False\<rparr>),
               rows @ [(fst (create u ip ua t1 rows))\<lparr>logoutTime := Some t2, isValid := False\<rparr>])
          \<and> endSession u t3 (rows @ [(fst (create u ip ua t1 rows))\<lparr>logoutTime := Some t2, isValid := False\<rparr>]) =
              (None, rows @ [(fst (create u ip ua t1 rows))\<lparr>logoutTime := Some t2, isValid := False\<rparr>])"
    by (simp add: start_then_end [OF ids] end_again)
  from part1 part2 part3 part4 show ?thesis by blast
qed

theorem endSession_most_recent_open_witness:
  "distinct (map sid sampleRows)
   \<and> (\<exists>r\<in>set sampleRows. userId r = 2 \<and> logoutTime r = None)
   \<and> (\<exists>s\<in>set sampleRows. userId s = 2 \<and> logoutTime s = None
      \<and> (\<forall>r\<in>set sampleRows. userId r = 2 \<and> logoutTime r = None \<longrightarrow> loginTime r \<le> loginTime s)
      \<and> endSession 2 500 sampleRows =
          (Some (s\<lparr>logoutTime := Some 500, isValid := False\<rparr>),
           map (\<lambda>r. if r = s then s\<lparr>logoutTime := Some 500, isValid := False\<rparr> else r) sampleRows))
   \<and> \<not> (\<exists>r\<in>set sampleRows. userId r = 7 \<and> logoutTime r = None)
   \<and> endSession 7 500 sampleRows = (None, sampleRows)
   \<and> endSession 7 600 (snd (create 7 None None 500 sampleRows)) =
       (Some ((fst (create 7 None None 500 sampleRows))\<lparr>logoutTime := Some 600, isValid := False\<rparr>),
        sampleRows @
          [(fst (create 7 None None 500 sampleRows))\<lparr>logoutTime := Some 600, isValid := False\<rparr>])
   \<and> endSession 7 700
        (sampleRows @
          [(fst (create 7 None None 500 sampleRows))\<lparr>logoutTime := Some 600, isValid := False\<rparr>]) =
       (None,
        sampleRows @
          [(fst (create 7 None None 500 sampleRows))\<lparr>logoutTime := Some 600, isValid := False\<rparr>])"
proof -
  have ids: "distinct (map sid sampleRows)"
    by (simp add: sampleRows_def)
  have closed: "\<not> (\<exists>r\<in>set sampleRows. userId r = 7 \<and> logoutTime r = None)"
    by (simp add: sampleRows_def)
  note spec = endSession_most_recent_open [OF ids, of 7 500 600 None None 500 700]
  from spec [THEN conjunct1] closed have none: "endSession 7 500 sampleRows = (None, sampleRows)"
    by (simp only: if_False)
  have opened: "\<exists>r\<in>set sampleRows. userId r = 2 \<and> logoutTime r = None"
    by (simp add: sampleRows_def)
  from endSession_most_recent_open [OF ids, of 2 500 600 None None 500 700, THEN conjunct1] opened
  have recent: "\<exists>s\<in>set sampleRows. userId s = 2 \<and> logoutTime s = None
      \<and> (\<forall>r\<in>set sampleRows. userId r = 2 \<and> logoutTime r = None \<longrightarrow> loginTime r \<le> loginTime s)
      \<and> endSession 2 500 sampleRows =
          (Some (s\<lparr>logoutTime := Some 500, isValid := False\<rparr>),
           map (\<lambda>r. if r = s then s\<lparr>logoutTime := Some 500, isValid := False\<rparr> else r) sampleRows)"
    by (simp only: if_True)
  from spec closed ids none opened recent show ?thesis
    by blast
qed


lemma consistent_iff: "consistent rows = (\<forall>r\<in>set rows. isValid r = (logoutTime r = None))"
  by (simp add: consistent_def list_all_iff)

lemma endSession_rows:
  "r \<in> set (snd (endSession u ts rows)) \<Longrightarrow> r \<in> set rows \<or> (\<not> isValid r \<and> logoutTime r = Some ts)"
  by (auto simp: endSession_def split: option.splits if_splits)

lemma invalidateAllSessions_rows:
  "r \<in> set (snd (invalidateAllSessions u ts rows)) \<Longrightarrow>
   r \<in> set rows \<or> (\<not> isValid r \<and> logoutTime r = Some ts)"
  by (auto simp: invalidateAllSessions_def split: if_splits)

lemma endSession_result:
  "fst (endSession u ts rows) = Some r \<Longrightarrow> \<not> isValid r \<and> logoutTime r = Some ts"
  by (auto simp: endSession_def split: option.splits)

text \<open>
  Claim C10. In every row \<open>isValid\<close> is true exactly when \<open>logoutTime\<close> is null:
  \<open>create\<close> adds a valid row with a null \<open>logoutTime\<close>, and \<open>endSession\<close>,
  \<open>invalidateAllSessions\<close> and \<open>deleteOldSessions\<close> keep the property; every row
  that \<open>endSession\<close> or \<open>invalidateAllSessions\<close> changes gets \<open>isValid\<close> false
  and a \<open>logoutTime\<close> together.
\<close>

theorem consistent_preserved:
  assumes inv: "consistent rows"
  shows "consistent (snd (create u ip ua ts rows))
       \<and> isValid (fst (create u ip ua ts rows))
       \<and> logoutTime (fst (create u ip ua ts rows)) = None
       \<and> consistent (snd (endSession u ts rows))
       \<and> consistent (snd (invalidateAllSessions u ts rows))
       \<and> consistent (snd (deleteOldSessions cutoff rows))
       \<and> (\<forall>r\<in>set (snd (endSession u ts rows)).
             r \<in> set rows \<or> (\<not> isValid r \<and> logoutTime r = Some ts))
       \<and> (\<forall>r\<in>set (snd (invalidateAllSessions u ts rows)).
             r \<in> set rows \<or> (\<not> isValid r \<and> logoutTime r = Some ts))
       \<and> (\<forall>r. fst (endSession u ts rows) = Some r \<longrightarrow> \<not> isValid r \<and> logoutTime r = Some ts)"
proof -
  have c: "consistent (snd (create u ip ua ts rows))"
    using inv by (simp add: consistent_iff create_rows)
  have v: "isValid (fst (create u ip ua ts rows))"
    and l: "logoutTime (fst (create u ip ua ts rows)) = None"
    by (simp_all add: create_rows)
  have e: "consistent (snd (endSession u ts rows))"
    unfolding consistent_iff
  proof
    fix r assume "r \<in> set (snd (endSession u ts rows))"
    from endSession_rows [OF this] inv show "isValid r = (logoutTime r = None)"
      by (auto simp: consistent_iff)
  qed
  have i: "consistent (snd (invalidateAllSessions u ts rows))"
    unfolding consistent_iff
  proof
    fix r assume "r \<in> set (snd (invalidateAllSessions u ts rows))"
    from invalidateAllSessions_rows [OF this] inv show "isValid r = (logoutTime r = None)"
      by (auto simp: consistent_iff)
  qed
  have d: "consistent (snd (deleteOldSessions cutoff rows))"
    using inv by (simp add: consistent_iff deleteOldSessions_def)
  from c v l e i d show ?thesis
    using endSession_rows [of _ u ts rows] invalidateAllSessions_rows [of _ u ts rows]
      endSession_result [of u ts rows]
    by blast
qed

theorem consistent_preserved_witness:
  "consistent sampleRows
   \<and> consistent (snd (endSession 2 500 sampleRows))
   \<and> consistent (snd (invalidateAllSessions 2 500 sampleRows))
   \<and> consistent (snd (create 2 None None 500 sampleRows))
   \<and> consistent (snd (deleteOldSessions 260 sampleRows))"
proof -
  have inv: "consistent sampleRows"
    by (simp add: consistent_def sampleRows_def)
  from consistent_preserved [OF inv, of 2 None None 500 260] inv show ?thesis
    by blast
qed


end
